theory Spec2Isabelle
  imports Complex_Main
begin

section \<open>Data model\<close>

text \<open>
  A Python \<open>str\<close> is a sequence of Unicode code points; it is modelled as a list of
  natural numbers, so that \<open>len\<close>, \<open>in\<close>, \<open>startswith\<close> and \<open>split\<close> count what Python
  counts. \<open>lit\<close> turns an ASCII literal into such a sequence.

  A Python \<open>float\<close> that holds an amount of money is modelled as a real number:
  arithmetic is exact, rounding is outside the model.
\<close>

type_synonym pystr = "nat list"

definition lit :: "string \<Rightarrow> pystr" where
  "lit s = map of_char s"

text \<open>The dictionaries \<open>{'name': ..., 'iata': ...}\<close> of \<^verbatim>\<open>models/travel_plan.py\<close>.\<close>

record location =
  loc_name :: "pystr option"
  loc_iata :: "pystr option"

text \<open>
  The booking dictionaries, as the services build them:
  \<open>{'option', 'price', 'details'}\<close> for a flight,
  \<open>{'option', 'price', 'nights', 'destination'}\<close> for a hotel and
  \<open>{'option', 'name', 'category', 'duration', 'price'}\<close> for an activity.
\<close>

record flight_booking =
  f_option :: nat
  f_price :: real
  f_details :: pystr

record hotel_booking =
  h_option :: nat
  h_price :: real
  h_nights :: int
  h_destination :: "pystr option"

record activity =
  a_option :: nat
  a_name :: pystr
  a_category :: pystr
  a_duration :: pystr
  a_price :: real

text \<open>
  Class \<open>TravelPlan\<close>. The two budgets are numbers: every booking menu is reached
  after \<open>collect_initial_details\<close> has set them.
\<close>

record travel_plan =
  total_budget :: real
  remaining_budget :: real
  departure :: location
  destination :: location
  departure_date :: "pystr option"
  return_date :: "pystr option"
  travelers :: "int option"
  flights :: "flight_booking option"
  hotels :: "hotel_booking option"
  activities :: "activity list"

section \<open>The budget ledger\<close>

text \<open>
  \<open>TravelPlan.calculate_remaining_budget\<close>: the money spent is the price of the booked
  flight, of the booked hotel and of every booked activity.
\<close>

definition spent :: "travel_plan \<Rightarrow> real" where
  "spent p =
     (case flights p of None \<Rightarrow> 0 | Some f \<Rightarrow> f_price f) +
     (case hotels p of None \<Rightarrow> 0 | Some h \<Rightarrow> h_price h) +
     sum_list (map a_price (activities p))"

definition calculate_remaining_budget :: "travel_plan \<Rightarrow> travel_plan" where
  "calculate_remaining_budget p = p\<lparr>remaining_budget := total_budget p - spent p\<rparr>"

text \<open>The ledger invariant of the specification.\<close>

definition ledger_ok :: "travel_plan \<Rightarrow> bool" where
  "ledger_ok p = (remaining_budget p = total_budget p - spent p)"

section \<open>Booking operations\<close>

subsection \<open>Flights\<close>

text \<open>
  One turn of the loop of \<open>FlightService.search_flights\<close> in which the user typed the
  digit \<open>k\<close>. \<open>prices\<close> are the totals of \<open>flight_options['data']\<close>, \<open>details\<close> is the
  formatted text stored with the booking, \<open>confirm\<close> and \<open>modify\<close> tell whether the
  user answers \<open>y\<close> to "Confirm booking?" and to "Would you like to increase your
  budget?", and \<open>new_budget\<close> is the number \<open>get_numeric_input\<close> returns.
\<close>

definition search_flights_choice ::
  "travel_plan \<Rightarrow> real list \<Rightarrow> nat \<Rightarrow> pystr \<Rightarrow> bool \<Rightarrow> bool \<Rightarrow> real \<Rightarrow> travel_plan" where
  "search_flights_choice p prices k details confirm modify new_budget =
     (if k \<in> {1, 2, 3} \<and> k - 1 < length prices then
        (let price = prices ! (k - 1) in
         if price \<le> remaining_budget p then
           (if confirm then
              p\<lparr>flights := Some \<lparr>f_option = k, f_price = price, f_details = details\<rparr>,
                remaining_budget := remaining_budget p - price\<rparr>
            else p)
         else
           (if modify then
              (let budget_increase = new_budget - total_budget p in
               p\<lparr>total_budget := new_budget,
                 remaining_budget := remaining_budget p + budget_increase\<rparr>)
            else p))
      else p)"

text \<open>
  Choice 4 of \<open>FlightService._handle_no_flights_found\<close> (also reached through
  \<open>modify_flight_criteria\<close>): the new total budget becomes the remaining budget.
\<close>

definition handle_no_flights_found_budget :: "travel_plan \<Rightarrow> real \<Rightarrow> travel_plan" where
  "handle_no_flights_found_budget p new_budget =
     (let p1 = p\<lparr>total_budget := new_budget\<rparr>
      in p1\<lparr>remaining_budget := total_budget p1\<rparr>)"

text \<open>
  Choice 5 of \<open>TravelPlannerCLI.edit_travel_details\<close>: when a booking exists the user is
  asked to confirm, and the bookings are cleared before the budget is set.
\<close>

definition has_bookings :: "travel_plan \<Rightarrow> bool" where
  "has_bookings p = (flights p \<noteq> None \<or> hotels p \<noteq> None \<or> activities p \<noteq> [])"

definition edit_travel_details_budget :: "travel_plan \<Rightarrow> bool \<Rightarrow> real \<Rightarrow> travel_plan" where
  "edit_travel_details_budget p confirm new_budget =
     (if has_bookings p \<and> \<not> confirm then p
      else
        (let p1 = (if has_bookings p
                   then p\<lparr>flights := None, hotels := None, activities := []\<rparr> else p);
             p2 = p1\<lparr>total_budget := new_budget\<rparr>
         in p2\<lparr>remaining_budget := total_budget p2\<rparr>))"

subsection \<open>Hotels\<close>

text \<open>
  The dictionary \<open>estimated_prices\<close> of \<open>HotelService.discuss_hotels\<close>, for the
  remaining budget and the number of nights.
\<close>

definition estimated_prices :: "real \<Rightarrow> int \<Rightarrow> nat \<Rightarrow> real" where
  "estimated_prices remaining nights k =
     (if k = 1 then min (remaining * 0.4) (200 * of_int nights)
      else if k = 2 then min (remaining * 0.3) (150 * of_int nights)
      else min (remaining * 0.2) (100 * of_int nights))"

text \<open>
  One turn of the loop of \<open>discuss_hotels\<close> in which the user typed the digit \<open>k\<close>;
  \<open>nights\<close> is what \<open>get_trip_duration_days\<close> returned and \<open>confirm\<close> tells whether the
  user answers \<open>y\<close> to "Confirm booking?". Without a booked flight the method returns at
  once.
\<close>

definition discuss_hotels_choice :: "travel_plan \<Rightarrow> int \<Rightarrow> nat \<Rightarrow> bool \<Rightarrow> travel_plan" where
  "discuss_hotels_choice p nights k confirm =
     (if flights p = None then p
      else if k \<in> {1, 2, 3} then
        (let price = estimated_prices (remaining_budget p) nights k in
         if confirm then
           (if price \<le> remaining_budget p then
              p\<lparr>hotels := Some \<lparr>h_option = k, h_price = price, h_nights = nights,
                                 h_destination = loc_name (destination p)\<rparr>,
                remaining_budget := remaining_budget p - price\<rparr>
            else p)
         else p)
      else p)"

text \<open>\<open>HotelService.modify_hotel_booking\<close>, by the menu entry the user picks.\<close>

datatype hotel_modification = CancelBooking | AdjustNights int | ReturnToMenu

definition modify_hotel_booking :: "travel_plan \<Rightarrow> hotel_modification \<Rightarrow> travel_plan" where
  "modify_hotel_booking p m =
     (case hotels p of
        None \<Rightarrow> p
      | Some h \<Rightarrow>
          (case m of
             CancelBooking \<Rightarrow>
               p\<lparr>remaining_budget := remaining_budget p + h_price h, hotels := None\<rparr>
           | AdjustNights new_nights \<Rightarrow>
               (let current_nights = h_nights h;
                    current_price = h_price h;
                    price_per_night =
                      (if current_nights > 0 then current_price / of_int current_nights else 0)
                in if new_nights \<le> 0 then p
                   else
                     (let new_price = price_per_night * of_int new_nights;
                          price_difference = new_price - current_price
                      in if price_difference > remaining_budget p then p
                         else p\<lparr>remaining_budget := remaining_budget p - price_difference,
                                hotels := Some (h\<lparr>h_nights := new_nights, h_price := new_price\<rparr>)\<rparr>))
           | ReturnToMenu \<Rightarrow> p))"

subsection \<open>Activities\<close>

text \<open>The dictionary \<open>activity_details\<close> of \<open>ActivityService.discuss_activities\<close>.\<close>

definition activity_details :: "real \<Rightarrow> nat \<Rightarrow> activity" where
  "activity_details remaining k =
     (if k = 1 then
        \<lparr>a_option = 1, a_name = lit ''City Tour'', a_category = lit ''Cultural'',
         a_duration = lit ''Half-day'', a_price = min (remaining * 0.15) 50\<rparr>
      else if k = 2 then
        \<lparr>a_option = 2, a_name = lit ''Museum Visit'', a_category = lit ''Cultural'',
         a_duration = lit ''Half-day'', a_price = min (remaining * 0.10) 30\<rparr>
      else if k = 3 then
        \<lparr>a_option = 3, a_name = lit ''Outdoor Adventure'', a_category = lit ''Adventure'',
         a_duration = lit ''Full-day'', a_price = min (remaining * 0.25) 80\<rparr>
      else if k = 4 then
        \<lparr>a_option = 4, a_name = lit ''Local Cuisine Experience'', a_category = lit ''Culinary'',
         a_duration = lit ''Half-day'', a_price = min (remaining * 0.15) 60\<rparr>
      else
        \<lparr>a_option = 5, a_name = lit ''Evening Entertainment'',
         a_category = lit ''Entertainment'', a_duration = lit ''Evening'',
         a_price = min (remaining * 0.15) 45\<rparr>)"

text \<open>
  One turn of the loop of \<open>discuss_activities\<close> in which the user typed the number \<open>k\<close>.
  Without a booked hotel the method returns at once.
\<close>

definition discuss_activities_choice :: "travel_plan \<Rightarrow> nat \<Rightarrow> bool \<Rightarrow> travel_plan" where
  "discuss_activities_choice p k confirm =
     (if hotels p = None then p
      else if 1 \<le> k \<and> k \<le> 5 then
        (let selected_activity = activity_details (remaining_budget p) k;
             price = a_price selected_activity
         in if confirm then
              (if price \<le> remaining_budget p then
                 p\<lparr>activities := activities p @ [selected_activity],
                   remaining_budget := remaining_budget p - price\<rparr>
               else p)
            else p)
      else p)"

text \<open>
  A Python float: a real number, an infinity or a NaN. The number that
  \<open>get_numeric_input\<close> hands to \<open>modify_activities\<close> is one.
\<close>

datatype pyfloat = Float real | PosInf | NegInf | NaN

fun is_integer :: "pyfloat \<Rightarrow> bool" where
  "is_integer (Float x) = (of_int \<lfloor>x\<rfloor> = x)"
| "is_integer PosInf = False"
| "is_integer NegInf = False"
| "is_integer NaN = False"

text \<open>
  Choice 1 of \<open>ActivityService.modify_activities\<close> on a plan with activities: the
  activity at the position entered is popped and its price refunded; a position that
  is not a whole number from 1 to the number of activities is refused.
\<close>

fun remove_activity :: "travel_plan \<Rightarrow> pyfloat \<Rightarrow> travel_plan" where
  "remove_activity p (Float x) =
     (if \<not> is_integer (Float x) \<or> x < 1 \<or> x > of_nat (length (activities p)) then p
      else
        (let index = nat \<lfloor>x\<rfloor>;
             removed = activities p ! (index - 1);
             p1 = p\<lparr>activities := take (index - 1) (activities p) @ drop index (activities p)\<rparr>
         in p1\<lparr>remaining_budget := remaining_budget p1 + a_price removed\<rparr>))"
| "remove_activity p PosInf = p"
| "remove_activity p NegInf = p"
| "remove_activity p NaN = p"

section \<open>Example inputs\<close>

definition no_location :: location where
  "no_location = \<lparr>loc_name = None, loc_iata = None\<rparr>"

text \<open>A plan of budget 2000 with a flight of 500 booked; 1500 remain.\<close>

definition plan_with_flight :: travel_plan where
  "plan_with_flight =
     \<lparr>total_budget = 2000, remaining_budget = 1500,
      departure = no_location, destination = no_location,
      departure_date = None, return_date = None, travelers = None,
      flights = Some \<lparr>f_option = 1, f_price = 500, f_details = []\<rparr>,
      hotels = None, activities = []\<rparr>"

text \<open>The same plan with a hotel of 900 and two activities of 50 and 30: 520 remain.\<close>

definition plan_booked :: travel_plan where
  "plan_booked =
     plan_with_flight
       \<lparr>remaining_budget := 520,
        hotels := Some \<lparr>h_option = 1, h_price = 900, h_nights = 5, h_destination = None\<rparr>,
        activities :=
          [activity_details 1000 1, activity_details 1000 2]\<rparr>"


section \<open>Errors\<close>

text \<open>The exceptions of Python that the modelled code can raise.\<close>

datatype py_error =
  ZeroDivisionError | ValueError | TypeError | AttributeError | KeyError | IndexError
  | RecursionError

text \<open>The operator \<open>/\<close> on floats: division by zero raises.\<close>

definition truediv :: "real \<Rightarrow> real \<Rightarrow> py_error + real" where
  "truediv a b = (if b = 0 then Inl ZeroDivisionError else Inr (a / b))"

section \<open>Trip duration and the budgets per night and per day\<close>

text \<open>
  \<open>datetime.strptime(s, "%Y-%m-%d")\<close> is a function of the Python library. It is a
  parameter \<open>strptime\<close> of the model: \<open>None\<close> where the library raises \<open>ValueError\<close>,
  and otherwise the day number (the proleptic Gregorian ordinal) of the date read. The
  difference of two such datetimes has as its \<open>days\<close> the difference of the day numbers.
\<close>

type_synonym strptime = "pystr \<Rightarrow> int option"

text \<open>\<open>TravelPlan.get_trip_duration_days\<close>; a date is missing when it is \<open>None\<close> or empty.\<close>

definition get_trip_duration_days :: "strptime \<Rightarrow> travel_plan \<Rightarrow> int" where
  "get_trip_duration_days strptime p =
     (if departure_date p = None \<or> departure_date p = Some []
         \<or> return_date p = None \<or> return_date p = Some [] then 0
      else
        (case strptime (the (return_date p)) of
           None \<Rightarrow> 0
         | Some r \<Rightarrow>
             (case strptime (the (departure_date p)) of
                None \<Rightarrow> 0
              | Some d \<Rightarrow> r - d)))"

text \<open>
  \<open>max_per_night\<close> of \<open>HotelService.discuss_hotels\<close> and \<open>get_hotel_suggestions\<close>, and
  \<open>daily_budget\<close> of \<open>ActivityService.discuss_activities\<close> and
  \<open>get_activity_suggestions\<close>: \<open>budget / nights if nights > 0 else budget\<close>.
\<close>

definition max_per_night :: "real \<Rightarrow> int \<Rightarrow> py_error + real" where
  "max_per_night budget nights =
     (if nights > 0 then truediv budget (of_int nights) else Inr budget)"

definition daily_budget :: "real \<Rightarrow> int \<Rightarrow> py_error + real" where
  "daily_budget budget days =
     (if days > 0 then truediv budget (of_int days) else Inr budget)"

text \<open>
  The simulated suggestions of \<^verbatim>\<open>services/api_wrappers.py\<close>. \<open>get_hotel_suggestions\<close>
  computes \<open>price_per_night = budget / (nights * 1.5)\<close> and the prices of its three
  hotels from it; \<open>get_activity_suggestions\<close> computes \<open>daily_budget = budget / days\<close>
  and the costs of its five activities. The model returns these numbers (the functions
  format them into a text).
\<close>

definition api_get_hotel_suggestions :: "real \<Rightarrow> int \<Rightarrow> py_error + real list" where
  "api_get_hotel_suggestions budget nights =
     (case truediv budget (of_int nights * 1.5) of
        Inl e \<Rightarrow> Inl e
      | Inr price_per_night \<Rightarrow>
          Inr [price_per_night * of_int nights * 0.9,
               price_per_night * of_int nights * 0.75,
               price_per_night * of_int nights * 1.1])"

definition api_get_activity_suggestions :: "real \<Rightarrow> int \<Rightarrow> py_error + real list" where
  "api_get_activity_suggestions budget days =
     (case truediv budget (of_int days) of
        Inl e \<Rightarrow> Inl e
      | Inr daily \<Rightarrow>
          Inr [daily * 0.2, daily * 0.15, daily * 0.4, daily * 0.1, daily * 0.25])"

text \<open>
  The number of nights as \<^verbatim>\<open>pui.py\<close> and the fallback path of \<^verbatim>\<open>ui/cli.py\<close> compute it:
  the two dates are parsed without a check, and the days of the difference are taken.
\<close>

definition nights_between :: "strptime \<Rightarrow> travel_plan \<Rightarrow> py_error + int" where
  "nights_between strptime p =
     (case return_date p of
        None \<Rightarrow> Inl TypeError
      | Some rs \<Rightarrow>
          (case strptime rs of
             None \<Rightarrow> Inl ValueError
           | Some r \<Rightarrow>
               (case departure_date p of
                  None \<Rightarrow> Inl TypeError
                | Some ds \<Rightarrow>
                    (case strptime ds of
                       None \<Rightarrow> Inl ValueError
                     | Some d \<Rightarrow> Inr (r - d)))))"

text \<open>
  \<open>IntegratedTravelAgent._process_hotels\<close> and \<open>_process_activities\<close> of \<^verbatim>\<open>pui.py\<close> on the
  answer \<open>yes\<close>: the nights are computed and the suggestions are asked for with the
  remaining budget. \<open>TravelPlannerCLI.discuss_hotels\<close> and \<open>discuss_activities\<close> do the
  same when no service object was given.
\<close>

definition process_hotels :: "strptime \<Rightarrow> travel_plan \<Rightarrow> py_error + real list" where
  "process_hotels strptime p =
     (case nights_between strptime p of
        Inl e \<Rightarrow> Inl e
      | Inr nights \<Rightarrow> api_get_hotel_suggestions (remaining_budget p) nights)"

definition process_activities :: "strptime \<Rightarrow> travel_plan \<Rightarrow> py_error + real list" where
  "process_activities strptime p =
     (case nights_between strptime p of
        Inl e \<Rightarrow> Inl e
      | Inr days \<Rightarrow> api_get_activity_suggestions (remaining_budget p) days)"

text \<open>
  A table for \<open>strptime\<close> that knows two dates, 1 June 2025 and 8 June 2025, and a plan
  that leaves and returns on 1 June 2025, which the date prompts accept.
\<close>

definition june_dates :: strptime where
  "june_dates s =
     (if s = lit ''2025-06-01'' then Some 739403
      else if s = lit ''2025-06-08'' then Some 739410
      else None)"

definition plan_same_day :: travel_plan where
  "plan_same_day =
     \<lparr>total_budget = 2000, remaining_budget = 1500,
      departure = no_location, destination = no_location,
      departure_date = Some (lit ''2025-06-01''), return_date = Some (lit ''2025-06-01''),
      travelers = Some 2,
      flights = Some \<lparr>f_option = 1, f_price = 500, f_details = []\<rparr>,
      hotels = None, activities = []\<rparr>"

section \<open>Serialising a plan\<close>

text \<open>
  \<open>to_dict\<close> and \<open>from_dict\<close> work on whatever values the attributes of a plan hold, so
  they are modelled on Python values: \<open>PDict\<close> is a dictionary in insertion order, and
  an object is its attribute dictionary, in the order the attributes were first set.
\<close>

datatype pyval =
  PNone | PBool bool | PInt int | PFloat real | PStr pystr
  | PList "pyval list" | PDict "(pystr \<times> pyval) list"





















section \<open>The world outside the program\<close>

text \<open>
  The remote services are parameters of the model: the outcome of a request is a
  function of the number of requests of its kind sent before it (and of what is asked).
  The world records what the program has sent, and the time.
\<close>

record world =
  clock :: real
  posts :: nat
  searches :: "pystr list"
  geocodes :: "pystr list"
  gets :: "pystr list"

text \<open>
  The outcome of the credential exchange (\<open>requests.post\<close>): a \<open>RequestException\<close>
  (raised by the request, or by \<open>response.json()\<close> on a status 200 whose body is not
  JSON), or a response with its status, its
  \<^verbatim>\<open>Retry-After\<close> header and, in the body, \<open>access_token\<close> and \<open>expires_in\<close> where given.
  The header is absent, a text that \<open>int\<close> reads, or another text.
\<close>

datatype retry_after = NoRetryAfter | RetryAfter int | RetryAfterText

datatype post_outcome =
  PostFailed
  | Response nat retry_after "pystr option" "real option"

text \<open>A value that Python takes as false where a token is tested: \<open>None\<close> or the empty string.\<close>

definition falsy :: "pystr option \<Rightarrow> bool" where
  "falsy t = (t = None \<or> t = Some [])"

section \<open>Token manager\<close>

text \<open>Class \<open>AmadeusTokenManager\<close>; \<open>max_retries\<close> and \<open>retry_delay\<close> are set once.\<close>

record token_manager =
  token :: "pystr option"
  expiry_time :: real

definition max_retries :: nat where
  "max_retries = 3"

definition retry_delay :: nat where
  "retry_delay = 2"

text \<open>
  The loop \<open>while retries < self.max_retries\<close> of \<open>get_token\<close>. Every turn sends one
  request. \<open>int\<close> of a header that is not a number and \<open>time.sleep\<close> of a negative time
  raise \<open>ValueError\<close>, which the method does not catch.
\<close>

function token_loop ::
  "(nat \<Rightarrow> post_outcome) \<Rightarrow> nat \<Rightarrow> token_manager \<Rightarrow> world
     \<Rightarrow> (py_error + pystr option) \<times> token_manager \<times> world" where
  "token_loop endpoint retries tm w =
     (if retries < max_retries then
        (let w1 = w\<lparr>posts := posts w + 1\<rparr>;
             backoff = of_nat (retry_delay * 2 ^ retries)
         in case endpoint (posts w) of
              PostFailed \<Rightarrow>
                token_loop endpoint (retries + 1) tm (w1\<lparr>clock := clock w1 + backoff\<rparr>)
            | Response status_code header access_token expires_in \<Rightarrow>
                if status_code = 200 then
                  (Inr access_token,
                   tm\<lparr>token := access_token,
                      expiry_time :=
                        clock w1 + (case expires_in of None \<Rightarrow> 1800 | Some t \<Rightarrow> t)\<rparr>,
                   w1)
                else if status_code = 429 then
                  (case header of
                     NoRetryAfter \<Rightarrow>
                       token_loop endpoint (retries + 1) tm (w1\<lparr>clock := clock w1 + backoff\<rparr>)
                   | RetryAfter wait_time \<Rightarrow>
                       if wait_time < 0 then (Inl ValueError, tm, w1)
                       else token_loop endpoint (retries + 1) tm
                              (w1\<lparr>clock := clock w1 + of_int wait_time\<rparr>)
                   | RetryAfterText \<Rightarrow> (Inl ValueError, tm, w1))
                else if status_code \<ge> 500 then
                  token_loop endpoint (retries + 1) tm (w1\<lparr>clock := clock w1 + backoff\<rparr>)
                else (Inr None, tm, w1))
      else (Inr None, tm, w))"
  by pat_completeness auto
termination
  by (relation "measure (\<lambda>(endpoint, retries, tm, w). max_retries - retries)") auto

text \<open>\<open>AmadeusTokenManager.get_token\<close>: the cached token while it is valid, else the loop.\<close>

definition get_token ::
  "(nat \<Rightarrow> post_outcome) \<Rightarrow> token_manager \<Rightarrow> world
     \<Rightarrow> (py_error + pystr option) \<times> token_manager \<times> world" where
  "get_token endpoint tm w =
     (if \<not> falsy (token tm) \<and> clock w < expiry_time tm - 300 then (Inr (token tm), tm, w)
      else token_loop endpoint 0 tm w)"




definition bad_request :: "nat \<Rightarrow> post_outcome" where
  "bad_request n = Response 400 NoRetryAfter None None"

definition new_token_manager :: token_manager where
  "new_token_manager = \<lparr>token = None, expiry_time = 0\<rparr>"

definition new_world :: world where
  "new_world = \<lparr>clock = 0, posts = 0, searches = [], geocodes = [], gets = []\<rparr>"

section \<open>Flight search\<close>



text \<open>The attributes of \<open>FlightService\<close> that the search uses.\<close>

record flight_service =
  access_token :: "pystr option"
  amadeus_token_manager :: token_manager






definition fresh_token :: "nat \<Rightarrow> post_outcome" where
  "fresh_token n = Response 200 NoRetryAfter (Some (lit ''new'')) None"



section \<open>Location service\<close>

text \<open>
  The provider search for locations answers with an exception (of \<open>requests.get\<close> or of
  \<open>response.json()\<close>) or with a status and the list under \<open>data\<close> (empty when the key is
  missing). An entry of the list has \<open>iataCode\<close> and \<open>name\<close>, where given.
\<close>

record place =
  p_iata :: "pystr option"
  p_name :: "pystr option"

datatype search_outcome = SearchFailed | SearchResponse nat "place list"

text \<open>
  The geocoder answers with an exception, with no result, or with the address
  components of its first result, each with its \<open>types\<close> and its \<open>long_name\<close>.
\<close>

record address_component =
  types :: "pystr list"
  long_name :: pystr

datatype geo_outcome = GeoFailed | GeoResults "address_component list option"

text \<open>
  What the service takes from outside: \<open>str.lower\<close> and the \<open>ratio\<close> of
  \<open>difflib.SequenceMatcher\<close> from the Python library, and the three remote services.
\<close>

record environment =
  lower :: "pystr \<Rightarrow> pystr"
  ratio :: "pystr \<Rightarrow> pystr \<Rightarrow> real"
  token_service :: "nat \<Rightarrow> post_outcome"
  location_search :: "nat \<Rightarrow> pystr \<Rightarrow> search_outcome"
  geocoder :: "nat \<Rightarrow> pystr \<Rightarrow> geo_outcome"

text \<open>Class \<open>LocationService\<close>: the cache and the token manager.\<close>

record location_service =
  location_cache :: "pystr \<Rightarrow> location option"
  ls_token_manager :: token_manager

text \<open>The dictionary \<open>special_cases\<close>: lower-cased name to code and name.\<close>

definition special_cases :: "pystr \<Rightarrow> (pystr \<times> pystr) option" where
  "special_cases =
     map_of
       [(lit ''abidjan'', (lit ''ABJ'', lit ''Abidjan'')),
        (lit ''maroc'', (lit ''CMN'', lit ''Casablanca'')),
        (lit ''casablanca'', (lit ''CMN'', lit ''Casablanca'')),
        (lit ''kigali'', (lit ''KGL'', lit ''Kigali'')),
        (lit ''nairobi'', (lit ''NBO'', lit ''Nairobi'')),
        (lit ''dakar'', (lit ''DKR'', lit ''Dakar''))]"

text \<open>
  \<open>LocationService._find_best_match\<close>: the loop over the locations keeps the first
  entry of the highest score above 0; an entry without \<open>name\<close> raises \<open>KeyError\<close>.
\<close>

fun best_match_loop ::
  "environment \<Rightarrow> pystr \<Rightarrow> place list \<Rightarrow> real \<Rightarrow> place \<Rightarrow> py_error + place" where
  "best_match_loop env input_name [] best_score best_match = Inr best_match"
| "best_match_loop env input_name (loc # locs) best_score best_match =
     (case p_name loc of
        None \<Rightarrow> Inl KeyError
      | Some n \<Rightarrow>
          (let loc_name = lower env n;
               score = ratio env input_name loc_name
                         + (if input_name = loc_name then 0.5 else 0)
           in if score > best_score then best_match_loop env input_name locs score loc
              else best_match_loop env input_name locs best_score best_match))"

definition find_best_match :: "environment \<Rightarrow> pystr \<Rightarrow> place list \<Rightarrow> py_error + place" where
  "find_best_match env input_name locations =
     (case locations of
        [] \<Rightarrow> Inl IndexError
      | first # rest \<Rightarrow> best_match_loop env (lower env input_name) locations 0 first)"

text \<open>
  The provider search of \<open>find_iata_code\<close> (the block \<open>if token:\<close>). Every exception in
  it is caught and leads on to the geocoding; the request is recorded with its keyword.
\<close>

definition provider_search ::
  "environment \<Rightarrow> pystr option \<Rightarrow> pystr \<Rightarrow> world \<Rightarrow> location option \<times> world" where
  "provider_search env tok location_name w =
     (if falsy tok then (None, w)
      else
        (let w1 = w\<lparr>searches := searches w @ [location_name]\<rparr>
         in case location_search env (length (searches w)) location_name of
              SearchFailed \<Rightarrow> (None, w1)
            | SearchResponse status_code places \<Rightarrow>
                if status_code = 200 \<and> places \<noteq> [] then
                  (case find_best_match env location_name places of
                     Inl e \<Rightarrow> (None, w1)
                   | Inr best_match \<Rightarrow>
                       (case p_iata best_match of
                          None \<Rightarrow> (None, w1)
                        | Some code \<Rightarrow>
                            (case p_name best_match of
                               None \<Rightarrow> (None, w1)
                             | Some n \<Rightarrow>
                                 (Some \<lparr>loc_name = Some n, loc_iata = Some code\<rparr>, w1))))
                else (None, w1)))"

text \<open>The component that the geocoding fallback picks: the first locality or region.\<close>

definition is_city :: "address_component \<Rightarrow> bool" where
  "is_city component =
     (lit ''locality'' \<in> set (types component)
      \<or> lit ''administrative_area_level_1'' \<in> set (types component))"

text \<open>
  \<open>LocationService.find_iata_code\<close>. The method calls itself with the name the geocoder
  found; the first argument bounds the depth of these calls, as the recursion limit of
  the interpreter does: at depth 0 the call raises \<open>RecursionError\<close>. An exception of
  the inner call is caught by the \<open>except\<close> of the geocoding block; an exception of
  \<open>get_token\<close> in the outermost call is not caught.
\<close>

fun find_iata_code ::
  "nat \<Rightarrow> environment \<Rightarrow> location_service \<Rightarrow> world \<Rightarrow> pystr
     \<Rightarrow> (py_error + location option) \<times> location_service \<times> world" where
  "find_iata_code 0 env ls w location_name = (Inl RecursionError, ls, w)"
| "find_iata_code (Suc depth) env ls w location_name =
     (let lower_input = lower env location_name in
      case location_cache ls lower_input of
        Some cached \<Rightarrow> (Inr (Some cached), ls, w)
      | None \<Rightarrow>
          (case special_cases lower_input of
             Some (code, n) \<Rightarrow>
               (let result = \<lparr>loc_name = Some n, loc_iata = Some code\<rparr>
                in (Inr (Some result),
                    ls\<lparr>location_cache := (location_cache ls)(lower_input \<mapsto> result)\<rparr>, w))
           | None \<Rightarrow>
               (case get_token (token_service env) (ls_token_manager ls) w of
                  (Inl e, tm, w1) \<Rightarrow> (Inl e, ls\<lparr>ls_token_manager := tm\<rparr>, w1)
                | (Inr tok, tm, w1) \<Rightarrow>
                    (let ls1 = ls\<lparr>ls_token_manager := tm\<rparr> in
                     case provider_search env tok location_name w1 of
                       (Some result, w2) \<Rightarrow>
                         (Inr (Some result),
                          ls1\<lparr>location_cache := (location_cache ls1)(lower_input \<mapsto> result)\<rparr>,
                          w2)
                     | (None, w2) \<Rightarrow>
                         (let w3 = w2\<lparr>geocodes := geocodes w2 @ [location_name]\<rparr> in
                          case geocoder env (length (geocodes w2)) location_name of
                            GeoFailed \<Rightarrow> (Inr None, ls1, w3)
                          | GeoResults None \<Rightarrow> (Inr None, ls1, w3)
                          | GeoResults (Some components) \<Rightarrow>
                              (case find is_city components of
                                 None \<Rightarrow> (Inr None, ls1, w3)
                               | Some component \<Rightarrow>
                                   (case find_iata_code depth env ls1 w3 (long_name component) of
                                      (Inl e, ls2, w4) \<Rightarrow> (Inr None, ls2, w4)
                                    | (Inr found, ls2, w4) \<Rightarrow> (Inr found, ls2, w4))))))))"

text \<open>
  Example environments. \<open>ascii_lower\<close> is \<open>str.lower\<close> on ASCII text. In all of them the
  token endpoint refuses, so no provider search is made. The geocoder of \<open>echo\<close> finds
  for every text a locality of the same name; the geocoder of \<open>old_names\<close> knows that
  Dar el Beida is Casablanca and finds nothing else.
\<close>

definition ascii_lower :: "pystr \<Rightarrow> pystr" where
  "ascii_lower s = map (\<lambda>c. if 65 \<le> c \<and> c \<le> 90 then c + 32 else c) s"

definition echo :: environment where
  "echo =
     \<lparr>lower = ascii_lower, ratio = (\<lambda>a b. 0), token_service = bad_request,
      location_search = (\<lambda>n keyword. SearchFailed),
      geocoder =
        (\<lambda>n text. GeoResults (Some [\<lparr>types = [lit ''locality''], long_name = text\<rparr>]))\<rparr>"

definition old_names :: environment where
  "old_names =
     \<lparr>lower = ascii_lower, ratio = (\<lambda>a b. 0), token_service = bad_request,
      location_search = (\<lambda>n keyword. SearchFailed),
      geocoder =
        (\<lambda>n text.
           if text = lit ''Dar el Beida''
           then GeoResults (Some [\<lparr>types = [lit ''country''], long_name = lit ''Morocco''\<rparr>,
                                  \<lparr>types = [lit ''locality''], long_name = lit ''Casablanca''\<rparr>])
           else GeoResults None)\<rparr>"

definition new_location_service :: location_service where
  "new_location_service =
     \<lparr>location_cache = (\<lambda>key. None), ls_token_manager = new_token_manager\<rparr>"

definition casablanca :: location where
  "casablanca = \<lparr>loc_name = Some (lit ''Casablanca''), loc_iata = Some (lit ''CMN'')\<rparr>"

text \<open>
  An environment whose token endpoint hands out a token and whose provider search
  finds an airport and the city of Paris, and the location it resolves to.
\<close>

definition paris_provider :: environment where
  "paris_provider =
     \<lparr>lower = ascii_lower, ratio = (\<lambda>a b. if a = b then 1 else 0.2),
      token_service = fresh_token,
      location_search =
        (\<lambda>n keyword.
           SearchResponse 200
             [\<lparr>p_iata = Some (lit ''CDG''), p_name = Some (lit ''Charles de Gaulle'')\<rparr>,
              \<lparr>p_iata = Some (lit ''PAR''), p_name = Some (lit ''Paris'')\<rparr>]),
      geocoder = (\<lambda>n text. GeoFailed)\<rparr>"

definition paris :: location where
  "paris = \<lparr>loc_name = Some (lit ''Paris''), loc_iata = Some (lit ''PAR'')\<rparr>"

section \<open>Parsing generated suggestions\<close>

subsection \<open>String methods\<close>

text \<open>The characters that \<open>str.strip()\<close> and \<open>str.split()\<close> take as white space.\<close>

definition is_space :: "nat \<Rightarrow> bool" where
  "is_space c =
     ((9 \<le> c \<and> c \<le> 13) \<or> (28 \<le> c \<and> c \<le> 32) \<or> c = 133 \<or> c = 160 \<or> c = 5760
      \<or> (8192 \<le> c \<and> c \<le> 8202) \<or> c = 8232 \<or> c = 8233 \<or> c = 8239 \<or> c = 8287
      \<or> c = 12288)"

definition strip :: "pystr \<Rightarrow> pystr" where
  "strip s = rev (dropWhile is_space (rev (dropWhile is_space s)))"

text \<open>\<open>s.split(sep)\<close> for a separator of one character: always at least one piece.\<close>

fun split_on :: "nat \<Rightarrow> pystr \<Rightarrow> pystr list" where
  "split_on sep [] = [[]]"
| "split_on sep (c # cs) =
     (if c = sep then [] # split_on sep cs
      else (case split_on sep cs of
              [] \<Rightarrow> [[c]]
            | piece # pieces \<Rightarrow> (c # piece) # pieces))"

fun startswith :: "pystr \<Rightarrow> pystr \<Rightarrow> bool" where
  "startswith s [] = True"
| "startswith [] (p # ps) = False"
| "startswith (c # cs) (p # ps) = (c = p \<and> startswith cs ps)"






text \<open>The lines that the loops of the parsers work on: stripped and not empty.\<close>

definition content_lines :: "pystr \<Rightarrow> pystr list" where
  "content_lines response = filter (\<lambda>line. line \<noteq> []) (map strip (split_on 10 response))"

subsection \<open>Hotel suggestions\<close>



text \<open>The header test of \<open>HotelService.get_hotel_suggestions\<close>.\<close>

definition hotel_header :: "pystr \<Rightarrow> nat option" where
  "hotel_header line =
     (if startswith line (lit ''1.'') \<or> startswith line (lit ''Option 1:'') then Some 1
      else if startswith line (lit ''2.'') \<or> startswith line (lit ''Option 2:'') then Some 2
      else if startswith line (lit ''3.'') \<or> startswith line (lit ''Option 3:'') then Some 3
      else None)"





subsection \<open>Activity suggestions\<close>













definition two_hotels :: pystr where
  "two_hotels =
     lit ''1. Grand Hotel'' @ [10] @ lit ''Price: $120 per night'' @ [10, 10]
       @ lit ''2. Budget Inn'' @ [10] @ lit ''Price: $abc''"






section \<open>The ledger invariant\<close>

lemma ledger_ok_calculate: "ledger_ok (calculate_remaining_budget p)"
  by (simp add: ledger_ok_def calculate_remaining_budget_def spent_def)

lemma ledger_ok_edit_travel_details:
  "ledger_ok p \<Longrightarrow> ledger_ok (edit_travel_details_budget p confirm new_budget)"
  by (auto simp: ledger_ok_def edit_travel_details_budget_def has_bookings_def spent_def Let_def)

lemma ledger_ok_first_flight:
  "ledger_ok p \<Longrightarrow> flights p = None \<Longrightarrow>
   ledger_ok (search_flights_choice p prices k details confirm modify new_budget)"
  by (auto simp: ledger_ok_def search_flights_choice_def spent_def Let_def)

lemma ledger_ok_first_hotel:
  "ledger_ok p \<Longrightarrow> hotels p = None \<Longrightarrow> ledger_ok (discuss_hotels_choice p nights k confirm)"
  by (auto simp: ledger_ok_def discuss_hotels_choice_def spent_def Let_def)

lemma ledger_ok_add_activity:
  "ledger_ok p \<Longrightarrow> ledger_ok (discuss_activities_choice p k confirm)"
  by (auto simp: ledger_ok_def discuss_activities_choice_def spent_def Let_def)

lemma ledger_ok_modify_hotel:
  "ledger_ok p \<Longrightarrow> ledger_ok (modify_hotel_booking p m)"
  by (auto simp: ledger_ok_def modify_hotel_booking_def spent_def Let_def
      split: option.splits hotel_modification.splits)

text \<open>
  Claim C1. After every mutating operation \<open>remaining_budget\<close> should equal
  \<open>total_budget\<close> minus the prices of the bookings. The budget change of the flight
  service does not keep this: on a plan of budget 2000 with a flight of 500 booked (the
  ledger holds, 1500 remain), entering the new budget 3000 leaves the flight booked and
  sets the remaining budget to 3000, where the invariant asks for 2500. The same change
  through \<open>edit_travel_details\<close> clears the booking first and keeps the invariant.
  Confirming a second flight (price 300) over the booked one replaces the booking and
  debits again: 1200 remain, where the invariant asks for 1700.
\<close>

theorem budget_reset_breaks_ledger:
  "ledger_ok plan_with_flight
   \<and> handle_no_flights_found_budget plan_with_flight 3000
       = plan_with_flight\<lparr>total_budget := 3000, remaining_budget := 3000\<rparr>
   \<and> \<not> ledger_ok (handle_no_flights_found_budget plan_with_flight 3000)
   \<and> ledger_ok (edit_travel_details_budget plan_with_flight True 3000)
   \<and> \<not> ledger_ok (search_flights_choice plan_with_flight [500, 300] 2 [] True False 0)"
  by (simp add: ledger_ok_def spent_def handle_no_flights_found_budget_def plan_with_flight_def
      edit_travel_details_budget_def has_bookings_def search_flights_choice_def Let_def)

section \<open>The budget check of a confirmation\<close>










section \<open>Removing an activity\<close>

lemma remove_activity_valid:
  assumes "1 \<le> i" "i \<le> length (activities p)"
  shows "remove_activity p (Float (of_nat i)) =
           p\<lparr>activities := take (i - 1) (activities p) @ drop i (activities p),
             remaining_budget := remaining_budget p + a_price (activities p ! (i - 1))\<rparr>"
  using assms by (simp add: Let_def)

lemma remove_activity_invalid:
  assumes "of_int \<lfloor>x\<rfloor> \<noteq> x \<or> x < 1 \<or> of_nat (length (activities p)) < x"
  shows "remove_activity p (Float x) = p"
  using assms by auto

lemma split_at_position:
  assumes "1 \<le> i" "i \<le> length xs"
  shows "xs = take (i - 1) xs @ [xs ! (i - 1)] @ drop i xs"
proof -
  have "i - 1 < length xs" using assms by simp
  then have "xs = take (i - 1) xs @ xs ! (i - 1) # drop (Suc (i - 1)) xs"
    by (rule id_take_nth_drop)
  then show ?thesis using assms by simp
qed

lemma ledger_ok_remove_activity:
  assumes "ledger_ok p"
  shows "ledger_ok (remove_activity p x)"
proof (cases x)
  case (Float r)
  show ?thesis
  proof (cases "of_int \<lfloor>r\<rfloor> \<noteq> r \<or> r < 1 \<or> of_nat (length (activities p)) < r")
    case True
    then show ?thesis using assms Float by (simp add: remove_activity_invalid)
  next
    case False
    define i where "i = nat \<lfloor>r\<rfloor>"
    have r: "r = of_nat i" "1 \<le> i" "i \<le> length (activities p)"
      using False by (auto simp: i_def)
    have "sum_list (map a_price (activities p)) =
          sum_list (map a_price (take (i - 1) (activities p) @ [activities p ! (i - 1)]
             @ drop i (activities p)))"
      using split_at_position [OF r(2,3)] by simp
    then show ?thesis
      using assms unfolding Float r(1) remove_activity_valid [OF r(2,3)]
      by (simp add: ledger_ok_def spent_def)
  qed
qed (use assms in simp_all)

text \<open>
  Claim C10. On a plan with \<open>n\<close> booked activities, removing the activity at a position
  \<open>i\<close> from 1 to \<open>n\<close> credits the remaining budget with the price of that activity,
  takes exactly that element out of the list (the activities before and after it keep
  their order) and leaves the total budget, the flight, the hotel, the dates, the
  travellers and the locations as they are. A position that is out of range or not a
  whole number (infinity and NaN included) is refused and the plan is unchanged.
\<close>

theorem remove_activity_effect:
  "(1 \<le> i \<and> i \<le> length (activities p) \<longrightarrow>
      remove_activity p (Float (of_nat i)) =
        p\<lparr>activities := take (i - 1) (activities p) @ drop i (activities p),
          remaining_budget := remaining_budget p + a_price (activities p ! (i - 1))\<rparr>
      \<and> activities p =
          take (i - 1) (activities p) @ [activities p ! (i - 1)] @ drop i (activities p)
      \<and> total_budget (remove_activity p (Float (of_nat i))) = total_budget p
      \<and> flights (remove_activity p (Float (of_nat i))) = flights p
      \<and> hotels (remove_activity p (Float (of_nat i))) = hotels p
      \<and> departure_date (remove_activity p (Float (of_nat i))) = departure_date p
      \<and> return_date (remove_activity p (Float (of_nat i))) = return_date p
      \<and> travelers (remove_activity p (Float (of_nat i))) = travelers p
      \<and> departure (remove_activity p (Float (of_nat i))) = departure p
      \<and> destination (remove_activity p (Float (of_nat i))) = destination p)
   \<and> (of_int \<lfloor>x\<rfloor> \<noteq> x \<or> x < 1 \<or> of_nat (length (activities p)) < x \<longrightarrow>
      remove_activity p (Float x) = p)
   \<and> remove_activity p PosInf = p
   \<and> remove_activity p NegInf = p
   \<and> remove_activity p NaN = p"
proof (intro conjI impI)
  assume a: "1 \<le> i \<and> i \<le> length (activities p)"
  then show "activities p =
      take (i - 1) (activities p) @ [activities p ! (i - 1)] @ drop i (activities p)"
    using split_at_position by blast
qed (simp_all add: remove_activity_valid remove_activity_invalid)

theorem remove_activity_effect_witness:
  "remove_activity plan_booked (Float 1) =
     plan_booked\<lparr>activities := [activity_details 1000 2], remaining_budget := 570\<rparr>
   \<and> remove_activity plan_booked (Float 2) =
     plan_booked\<lparr>activities := [activity_details 1000 1], remaining_budget := 550\<rparr>
   \<and> remove_activity plan_booked (Float 3) = plan_booked
   \<and> remove_activity plan_booked (Float 0) = plan_booked
   \<and> remove_activity plan_booked (Float 1.5) = plan_booked"
  using remove_activity_effect [of 1 plan_booked 3]
    remove_activity_effect [of 2 plan_booked 0]
    remove_activity_effect [of 2 plan_booked "1.5"]
  by (simp add: plan_booked_def plan_with_flight_def activity_details_def)

section \<open>Literals\<close>

lemma lit_eq_iff [simp]: "lit a = lit b \<longleftrightarrow> a = b"
  by (simp add: lit_def inj_of_char)

section \<open>Trip duration and division by the duration\<close>

lemma get_trip_duration_days_missing:
  "departure_date p = None \<or> departure_date p = Some [] \<or> return_date p = None
     \<or> return_date p = Some [] \<Longrightarrow> get_trip_duration_days strptime p = 0"
  by (auto simp: get_trip_duration_days_def)

lemma get_trip_duration_days_invalid:
  "strptime (the (departure_date p)) = None \<or> strptime (the (return_date p)) = None
     \<Longrightarrow> get_trip_duration_days strptime p = 0"
  by (auto simp: get_trip_duration_days_def split: option.splits)



text \<open>
  Claim C9. \<open>get_trip_duration_days\<close> returns 0 for a missing or unreadable date, and
  the two services guard their division by the duration (the four lemmas above). The
  claim that no division by zero can be reached does not hold for the suggestion
  functions of \<^verbatim>\<open>api_wrappers.py\<close>, which divide the remaining budget by the number of
  nights without a guard: for a trip that leaves and returns on the same day the
  duration is 0, the services compute their budgets per night and per day, and the
  front end of \<^verbatim>\<open>pui.py\<close> raises \<open>ZeroDivisionError\<close> for hotels and for activities.
\<close>

theorem same_day_trip_divides_by_zero:
  "get_trip_duration_days june_dates plan_same_day = 0
   \<and> max_per_night (remaining_budget plan_same_day)
        (get_trip_duration_days june_dates plan_same_day) = Inr 1500
   \<and> daily_budget (remaining_budget plan_same_day)
        (get_trip_duration_days june_dates plan_same_day) = Inr 1500
   \<and> nights_between june_dates plan_same_day = Inr 0
   \<and> process_hotels june_dates plan_same_day = Inl ZeroDivisionError
   \<and> process_activities june_dates plan_same_day = Inl ZeroDivisionError"
  by (simp add: get_trip_duration_days_def max_per_night_def daily_budget_def
      nights_between_def process_hotels_def process_activities_def
      api_get_hotel_suggestions_def api_get_activity_suggestions_def truediv_def
      plan_same_day_def june_dates_def)

section \<open>Serialising and loading a plan\<close>










section \<open>The retry loop of the token manager\<close>

declare token_loop.simps [simp del]








section \<open>Flight search with an expired token\<close>




lemma get_fresh_token:
  "get_token fresh_token new_token_manager w =
     (Inr (Some (lit ''new'')),
      \<lparr>token = Some (lit ''new''), expiry_time = clock w + 1800\<rparr>,
      w\<lparr>posts := posts w + 1\<rparr>)"
  by (simp add: get_token_def new_token_manager_def falsy_def fresh_token_def
      max_retries_def Let_def token_loop.simps [of fresh_token 0])


section \<open>Resolving a location\<close>

lemma lower_casablanca: "ascii_lower (lit ''Casablanca'') = lit ''casablanca''"
  by (simp add: ascii_lower_def lit_def)

lemma lower_dar_el_beida: "ascii_lower (lit ''Dar el Beida'') = lit ''dar el beida''"
  by (simp add: ascii_lower_def lit_def)

lemma special_casablanca:
  "special_cases (lit ''casablanca'') = Some (lit ''CMN'', lit ''Casablanca'')"
  by (simp add: special_cases_def)

lemma special_dar_el_beida: "special_cases (lit ''dar el beida'') = None"
  by (simp add: special_cases_def)

lemma get_token_bad_request:
  "get_token bad_request new_token_manager w =
     (Inr None, new_token_manager, w\<lparr>posts := posts w + 1\<rparr>)"
  by (simp add: get_token_def new_token_manager_def falsy_def bad_request_def
      max_retries_def Let_def token_loop.simps [of bad_request 0])

lemma lower_atlantis: "ascii_lower (lit ''Atlantis'') = lit ''atlantis''"
  by (simp add: ascii_lower_def lit_def)

lemma special_atlantis: "special_cases (lit ''atlantis'') = None"
  by (simp add: special_cases_def)

lemma cache_hit:
  assumes "location_cache ls (lower env location_name) = Some cached"
  shows "find_iata_code (Suc depth) env ls w location_name = (Inr (Some cached), ls, w)"
  using assms by (simp add: Let_def)

lemma special_case_hit:
  assumes "location_cache ls (lower env location_name) = None"
    and "special_cases (lower env location_name) = Some (code, n)"
  shows "find_iata_code (Suc depth) env ls w location_name =
           (Inr (Some \<lparr>loc_name = Some n, loc_iata = Some code\<rparr>),
            ls\<lparr>location_cache :=
                 (location_cache ls)(lower env location_name \<mapsto>
                    \<lparr>loc_name = Some n, loc_iata = Some code\<rparr>)\<rparr>,
            w)"
  using assms by (simp add: Let_def)

lemma provider_hit:
  assumes "location_cache ls (lower env location_name) = None"
    and "special_cases (lower env location_name) = None"
    and "get_token (token_service env) (ls_token_manager ls) w = (Inr tok, tm, w1)"
    and "provider_search env tok location_name w1 = (Some result, w2)"
  shows "find_iata_code (Suc depth) env ls w location_name =
           (Inr (Some result),
            ls\<lparr>ls_token_manager := tm,
               location_cache := (location_cache ls)(lower env location_name \<mapsto> result)\<rparr>,
            w2)"
  using assms by (simp add: Let_def)

lemma token_raises:
  assumes "location_cache ls (lower env location_name) = None"
    and "special_cases (lower env location_name) = None"
    and "get_token (token_service env) (ls_token_manager ls) w = (Inl e, tm, w1)"
  shows "find_iata_code (Suc depth) env ls w location_name =
           (Inl e, ls\<lparr>ls_token_manager := tm\<rparr>, w1)"
  using assms by (simp add: Let_def)

lemma geocoding_fallback:
  assumes "location_cache ls (lower env location_name) = None"
    and "special_cases (lower env location_name) = None"
    and "get_token (token_service env) (ls_token_manager ls) w = (Inr tok, tm, w1)"
    and "provider_search env tok location_name w1 = (None, w2)"
  shows "find_iata_code (Suc depth) env ls w location_name =
     (case geocoder env (length (geocodes w2)) location_name of
        GeoFailed \<Rightarrow>
          (Inr None, ls\<lparr>ls_token_manager := tm\<rparr>, w2\<lparr>geocodes := geocodes w2 @ [location_name]\<rparr>)
      | GeoResults None \<Rightarrow>
          (Inr None, ls\<lparr>ls_token_manager := tm\<rparr>, w2\<lparr>geocodes := geocodes w2 @ [location_name]\<rparr>)
      | GeoResults (Some components) \<Rightarrow>
          (case find is_city components of
             None \<Rightarrow>
               (Inr None, ls\<lparr>ls_token_manager := tm\<rparr>,
                w2\<lparr>geocodes := geocodes w2 @ [location_name]\<rparr>)
           | Some component \<Rightarrow>
               (case find_iata_code depth env (ls\<lparr>ls_token_manager := tm\<rparr>)
                       (w2\<lparr>geocodes := geocodes w2 @ [location_name]\<rparr>) (long_name component) of
                  (Inl e, ls2, w4) \<Rightarrow> (Inr None, ls2, w4)
                | (Inr found, ls2, w4) \<Rightarrow> (Inr found, ls2, w4))))"
  using assms by (simp add: Let_def)

declare find_iata_code.simps(2) [simp del]

lemma failure_not_cached:
  "(\<forall>r. fst (find_iata_code depth env ls w location_name) \<noteq> Inr (Some r)) \<Longrightarrow>
   location_cache (fst (snd (find_iata_code depth env ls w location_name))) = location_cache ls"
proof (induction depth arbitrary: ls w location_name)
  case 0
  show ?case by simp
next
  case (Suc depth)
  show ?case
  proof (cases "location_cache ls (lower env location_name)")
    case (Some cached)
    then show ?thesis by (simp add: cache_hit)
  next
    case None
    note miss = None
    show ?thesis
    proof (cases "special_cases (lower env location_name)")
      case (Some entry)
      then show ?thesis using Suc.prems miss by (cases entry) (simp add: special_case_hit)
    next
      case None
      obtain r tm w1 where t:
        "get_token (token_service env) (ls_token_manager ls) w = (r, tm, w1)"
        by (metis prod_cases3)
      show ?thesis
      proof (cases r)
        case (Inl e)
        then show ?thesis using token_raises [OF miss None t [unfolded Inl]] by simp
      next
        case (Inr tok)
        obtain found w2 where p: "provider_search env tok location_name w1 = (found, w2)"
          by (cases "provider_search env tok location_name w1")
        show ?thesis
        proof (cases found)
          case (Some result)
          then show ?thesis
            using Suc.prems provider_hit [OF miss None t [unfolded Inr] p [unfolded Some]]
            by simp
        next
          case None2: None
          note fb = geocoding_fallback [OF miss None t [unfolded Inr] p [unfolded None2], of depth]
          show ?thesis
          proof (cases "geocoder env (length (geocodes w2)) location_name")
            case GeoFailed
            then show ?thesis using fb by simp
          next
            case (GeoResults results)
            show ?thesis
            proof (cases results)
              case None
              then show ?thesis using fb GeoResults by simp
            next
              case (Some components)
              show ?thesis
              proof (cases "find is_city components")
                case None
                then show ?thesis using fb GeoResults Some by simp
              next
                case city: (Some component)
                obtain r2 ls2 w4 where rec:
                  "find_iata_code depth env (ls\<lparr>ls_token_manager := tm\<rparr>)
                     (w2\<lparr>geocodes := geocodes w2 @ [location_name]\<rparr>) (long_name component)
                   = (r2, ls2, w4)" by (metis prod_cases3)
                have res: "find_iata_code (Suc depth) env ls w location_name =
                    ((case r2 of Inl e \<Rightarrow> Inr None | Inr found \<Rightarrow> Inr found), ls2, w4)"
                  using fb GeoResults Some city rec by (simp split: sum.splits)
                have "\<forall>r. r2 \<noteq> Inr (Some r)"
                  using Suc.prems res by (auto split: sum.splits)
                then have "location_cache ls2 = location_cache (ls\<lparr>ls_token_manager := tm\<rparr>)"
                  using Suc.IH [of "ls\<lparr>ls_token_manager := tm\<rparr>"
                      "w2\<lparr>geocodes := geocodes w2 @ [location_name]\<rparr>" "long_name component"]
                    rec by simp
                then show ?thesis using res by simp
              qed
            qed
          qed
        qed
      qed
    qed
  qed
qed

lemma casablanca_twice:
  assumes "lower env (lit ''Casablanca'') = lit ''casablanca''"
  shows "\<exists>found ls1.
      find_iata_code (Suc depth) env ls w (lit ''Casablanca'') = (Inr (Some found), ls1, w)
      \<and> find_iata_code (Suc depth') env ls1 w (lit ''Casablanca'') = (Inr (Some found), ls1, w)
      \<and> location_cache ls1 (lit ''casablanca'') = Some found
      \<and> (location_cache ls (lit ''casablanca'') = None \<longrightarrow> found = casablanca)"
proof (cases "location_cache ls (lit ''casablanca'')")
  case None
  have "find_iata_code (Suc depth) env ls w (lit ''Casablanca'') =
      (Inr (Some casablanca),
       ls\<lparr>location_cache := (location_cache ls)(lit ''casablanca'' \<mapsto> casablanca)\<rparr>, w)"
    using special_case_hit [of ls env "lit ''Casablanca''" "lit ''CMN''" "lit ''Casablanca''" depth w]
      None assms by (simp add: special_casablanca casablanca_def)
  moreover have "find_iata_code (Suc depth') env
      (ls\<lparr>location_cache := (location_cache ls)(lit ''casablanca'' \<mapsto> casablanca)\<rparr>) w
      (lit ''Casablanca'') =
      (Inr (Some casablanca),
       ls\<lparr>location_cache := (location_cache ls)(lit ''casablanca'' \<mapsto> casablanca)\<rparr>, w)"
    by (rule cache_hit) (simp add: assms)
  ultimately show ?thesis by simp
next
  case (Some cached)
  then have "find_iata_code (Suc d) env ls w (lit ''Casablanca'') = (Inr (Some cached), ls, w)"
    for d
    by (intro cache_hit) (simp add: assms)
  then show ?thesis using Some by simp
qed

lemma lower_paris: "ascii_lower (lit ''Paris'') = lit ''paris''"
  by (simp add: ascii_lower_def lit_def)

lemma lower_charles_de_gaulle:
  "ascii_lower (lit ''Charles de Gaulle'') = lit ''charles de gaulle''"
  by (simp add: ascii_lower_def lit_def)

lemma special_paris: "special_cases (lit ''paris'') = None"
  by (simp add: special_cases_def)

lemma provider_search_paris:
  "provider_search paris_provider (Some (lit ''new'')) (lit ''Paris'') w =
     (Some paris, w\<lparr>searches := searches w @ [lit ''Paris'']\<rparr>)"
proof -
  have "lit ''new'' \<noteq> []" by (simp add: lit_def)
  then show ?thesis
    by (simp add: provider_search_def paris_provider_def paris_def falsy_def Let_def
        find_best_match_def lower_paris lower_charles_de_gaulle)
qed

text \<open>
  Claim C7 (amended). The resolver looks in the cache first, under the lower-cased
  input; a hit is returned and nothing else happens. On a miss the curated table is
  asked; a hit is returned and stored under the lower-cased input, and no token and no
  provider is asked. On a miss there the provider search is made; what it finds is
  returned and stored under the lower-cased input. A call that does not return a
  location leaves the cache as it was. A second call with \<open>Casablanca\<close> is answered from
  the cache with the result of the first, and neither call sends a request.
\<close>

theorem resolution_order_and_cache:
  "(location_cache ls (lower env location_name) = Some cached \<longrightarrow>
      find_iata_code (Suc depth) env ls w location_name = (Inr (Some cached), ls, w))
   \<and> (location_cache ls (lower env location_name) = None
       \<and> special_cases (lower env location_name) = Some (code, n) \<longrightarrow>
      find_iata_code (Suc depth) env ls w location_name =
        (Inr (Some \<lparr>loc_name = Some n, loc_iata = Some code\<rparr>),
         ls\<lparr>location_cache :=
              (location_cache ls)(lower env location_name \<mapsto>
                 \<lparr>loc_name = Some n, loc_iata = Some code\<rparr>)\<rparr>,
         w))
   \<and> (location_cache ls (lower env location_name) = None
       \<and> special_cases (lower env location_name) = None
       \<and> get_token (token_service env) (ls_token_manager ls) w = (Inr tok, tm, w1)
       \<and> provider_search env tok location_name w1 = (Some result, w2) \<longrightarrow>
      find_iata_code (Suc depth) env ls w location_name =
        (Inr (Some result),
         ls\<lparr>ls_token_manager := tm,
            location_cache := (location_cache ls)(lower env location_name \<mapsto> result)\<rparr>,
         w2))
   \<and> ((\<forall>r. fst (find_iata_code depth env ls w location_name) \<noteq> Inr (Some r)) \<longrightarrow>
      location_cache (fst (snd (find_iata_code depth env ls w location_name)))
        = location_cache ls)
   \<and> (lower env (lit ''Casablanca'') = lit ''casablanca'' \<longrightarrow>
      (\<exists>found ls1.
         find_iata_code (Suc depth) env ls w (lit ''Casablanca'') = (Inr (Some found), ls1, w)
         \<and> find_iata_code (Suc depth) env ls1 w (lit ''Casablanca'')
             = (Inr (Some found), ls1, w)
         \<and> location_cache ls1 (lit ''casablanca'') = Some found
         \<and> (location_cache ls (lit ''casablanca'') = None \<longrightarrow> found = casablanca)))"
  using cache_hit [of ls env location_name cached depth w]
    special_case_hit [of ls env location_name code n depth w]
    provider_hit [of ls env location_name w tok tm w1 result w2 depth]
    failure_not_cached [of depth env ls w location_name]
    casablanca_twice [of env depth ls w depth]
  by blast

theorem resolution_order_and_cache_witness:
  "find_iata_code (Suc 0) old_names new_location_service new_world (lit ''Casablanca'') =
     (Inr (Some casablanca),
      new_location_service
        \<lparr>location_cache := (location_cache new_location_service)(lit ''casablanca'' \<mapsto> casablanca)\<rparr>,
      new_world)
   \<and> find_iata_code (Suc 0) old_names
       (new_location_service
          \<lparr>location_cache :=
             (location_cache new_location_service)(lit ''casablanca'' \<mapsto> casablanca)\<rparr>)
       new_world (lit ''Casablanca'') =
     (Inr (Some casablanca),
      new_location_service
        \<lparr>location_cache := (location_cache new_location_service)(lit ''casablanca'' \<mapsto> casablanca)\<rparr>,
      new_world)
   \<and> find_iata_code (Suc 0) paris_provider new_location_service new_world (lit ''Paris'') =
     (Inr (Some paris),
      new_location_service
        \<lparr>ls_token_manager := \<lparr>token = Some (lit ''new''), expiry_time = 1800\<rparr>,
         location_cache := (location_cache new_location_service)(lit ''paris'' \<mapsto> paris)\<rparr>,
      new_world\<lparr>posts := 1, searches := [lit ''Paris'']\<rparr>)
   \<and> location_cache
       (fst (snd (find_iata_code (Suc 0) old_names new_location_service new_world
          (lit ''Atlantis''))))
     = location_cache new_location_service"
proof -
  have a: "find_iata_code (Suc 0) old_names new_location_service new_world (lit ''Casablanca'') =
     (Inr (Some casablanca),
      new_location_service
        \<lparr>location_cache := (location_cache new_location_service)(lit ''casablanca'' \<mapsto> casablanca)\<rparr>,
      new_world)"
    using resolution_order_and_cache [where env = old_names and ls = new_location_service
        and location_name = "lit ''Casablanca''" and code = "lit ''CMN''"
        and n = "lit ''Casablanca''" and depth = 0 and w = new_world]
    by (simp add: old_names_def new_location_service_def lower_casablanca special_casablanca
        casablanca_def)
  have b: "find_iata_code (Suc 0) old_names
       (new_location_service
          \<lparr>location_cache :=
             (location_cache new_location_service)(lit ''casablanca'' \<mapsto> casablanca)\<rparr>)
       new_world (lit ''Casablanca'') =
     (Inr (Some casablanca),
      new_location_service
        \<lparr>location_cache := (location_cache new_location_service)(lit ''casablanca'' \<mapsto> casablanca)\<rparr>,
      new_world)"
    using resolution_order_and_cache [where env = old_names
        and ls = "new_location_service
          \<lparr>location_cache :=
             (location_cache new_location_service)(lit ''casablanca'' \<mapsto> casablanca)\<rparr>"
        and location_name = "lit ''Casablanca''" and cached = casablanca
        and depth = 0 and w = new_world]
    by (simp add: old_names_def lower_casablanca)
  have c: "find_iata_code (Suc 0) paris_provider new_location_service new_world (lit ''Paris'') =
     (Inr (Some paris),
      new_location_service
        \<lparr>ls_token_manager := \<lparr>token = Some (lit ''new''), expiry_time = 1800\<rparr>,
         location_cache := (location_cache new_location_service)(lit ''paris'' \<mapsto> paris)\<rparr>,
      new_world\<lparr>posts := 1, searches := [lit ''Paris'']\<rparr>)"
    using resolution_order_and_cache [where env = paris_provider and ls = new_location_service
        and location_name = "lit ''Paris''" and depth = 0 and w = new_world
        and tok = "Some (lit ''new'')"
        and tm = "\<lparr>token = Some (lit ''new''), expiry_time = 1800\<rparr>"
        and ?w1.0 = "new_world\<lparr>posts := 1\<rparr>" and result = paris
        and ?w2.0 = "new_world\<lparr>posts := 1, searches := [lit ''Paris'']\<rparr>"]
      get_fresh_token [of new_world]
      provider_search_paris [of "new_world\<lparr>posts := 1\<rparr>"]
    by (simp add: paris_provider_def new_location_service_def lower_paris special_paris
        new_world_def)
  have "fst (find_iata_code (Suc 0) old_names new_location_service new_world (lit ''Atlantis''))
        = Inr None"
    using geocoding_fallback [of new_location_service old_names "lit ''Atlantis''" new_world
        None new_token_manager "new_world\<lparr>posts := 1\<rparr>"  "new_world\<lparr>posts := 1\<rparr>" 0]
      get_token_bad_request [of new_world]
    by (simp add: old_names_def new_location_service_def lower_atlantis special_atlantis
        provider_search_def falsy_def new_world_def)
  then have d: "location_cache
       (fst (snd (find_iata_code (Suc 0) old_names new_location_service new_world
          (lit ''Atlantis''))))
     = location_cache new_location_service"
    using resolution_order_and_cache [where env = old_names and ls = new_location_service
        and location_name = "lit ''Atlantis''" and depth = "Suc 0" and w = new_world]
    by simp
  show ?thesis using a b c d by blast
qed

lemma dar_el_beida_first_call:
  "find_iata_code (Suc (Suc 0)) old_names new_location_service new_world (lit ''Dar el Beida'') =
     (Inr (Some casablanca),
      new_location_service
        \<lparr>location_cache := (location_cache new_location_service)(lit ''casablanca'' \<mapsto> casablanca)\<rparr>,
      new_world\<lparr>posts := 1, geocodes := [lit ''Dar el Beida'']\<rparr>)"
  by (simp add: find_iata_code.simps(2) old_names_def new_location_service_def Let_def
      get_token_bad_request provider_search_def falsy_def is_city_def new_world_def
      casablanca_def lower_casablanca lower_dar_el_beida special_casablanca
      special_dar_el_beida)

lemma dar_el_beida_second_call:
  "find_iata_code (Suc (Suc 0)) old_names
     (new_location_service
        \<lparr>location_cache := (location_cache new_location_service)(lit ''casablanca'' \<mapsto> casablanca)\<rparr>)
     (new_world\<lparr>posts := 1, geocodes := [lit ''Dar el Beida'']\<rparr>) (lit ''Dar el Beida'') =
     (Inr (Some casablanca),
      new_location_service
        \<lparr>location_cache := (location_cache new_location_service)(lit ''casablanca'' \<mapsto> casablanca)\<rparr>,
      new_world\<lparr>posts := 2, geocodes := [lit ''Dar el Beida'', lit ''Dar el Beida'']\<rparr>)"
  by (simp add: find_iata_code.simps(2) old_names_def new_location_service_def Let_def
      get_token_bad_request provider_search_def falsy_def is_city_def new_world_def
      casablanca_def lower_casablanca lower_dar_el_beida special_casablanca
      special_dar_el_beida)

text \<open>
  Claim C7 as stated fails for a name that the geocoding fallback resolves: Dar el Beida
  is resolved to Casablanca and the result is stored under \<open>casablanca\<close>, not under the
  lower-cased input, so a second call with the same input sends the geocoding request
  again.
\<close>

theorem geocoded_name_not_cached:
  "fst (find_iata_code (Suc (Suc 0)) old_names new_location_service new_world
          (lit ''Dar el Beida'')) = Inr (Some casablanca)
   \<and> location_cache
        (fst (snd (find_iata_code (Suc (Suc 0)) old_names new_location_service new_world
           (lit ''Dar el Beida''))))
        (lower old_names (lit ''Dar el Beida'')) = None
   \<and> location_cache
        (fst (snd (find_iata_code (Suc (Suc 0)) old_names new_location_service new_world
           (lit ''Dar el Beida''))))
        (lit ''casablanca'') = Some casablanca
   \<and> geocodes
        (snd (snd (find_iata_code (Suc (Suc 0)) old_names
           (fst (snd (find_iata_code (Suc (Suc 0)) old_names new_location_service new_world
              (lit ''Dar el Beida''))))
           (snd (snd (find_iata_code (Suc (Suc 0)) old_names new_location_service new_world
              (lit ''Dar el Beida''))))
           (lit ''Dar el Beida''))))
       = [lit ''Dar el Beida'', lit ''Dar el Beida'']"
proof -
  have key: "location_cache new_location_service (lower old_names (lit ''Dar el Beida'')) = None"
    by (simp add: new_location_service_def)
  have other: "lower old_names (lit ''Dar el Beida'') \<noteq> lit ''casablanca''"
    by (simp add: old_names_def lower_dar_el_beida)
  show ?thesis
    unfolding dar_el_beida_first_call fst_conv snd_conv dar_el_beida_second_call
    using key other by simp
qed

lemma echo_recursion:
  assumes "location_cache ls (lit ''atlantis'') = None"
    and "ls_token_manager ls = new_token_manager"
  shows "find_iata_code depth echo ls w (lit ''Atlantis'') =
           ((if depth = 0 then Inl RecursionError else Inr None), ls,
            w\<lparr>posts := posts w + depth,
              geocodes := geocodes w @ replicate depth (lit ''Atlantis'')\<rparr>)"
  using assms
proof (induction depth arbitrary: w)
  case 0
  show ?case by simp
next
  case (Suc depth)
  have ls: "ls\<lparr>ls_token_manager := new_token_manager\<rparr> = ls"
    using Suc.prems(2) by (cases ls) simp
  have "find_iata_code (Suc depth) echo ls w (lit ''Atlantis'') =
     (case find_iata_code depth echo ls
             (w\<lparr>posts := posts w + 1, geocodes := geocodes w @ [lit ''Atlantis'']\<rparr>)
             (lit ''Atlantis'') of
        (Inl e, ls2, w4) \<Rightarrow> (Inr None, ls2, w4)
      | (Inr found, ls2, w4) \<Rightarrow> (Inr found, ls2, w4))"
    using geocoding_fallback [of ls echo "lit ''Atlantis''" w None new_token_manager
        "w\<lparr>posts := posts w + 1\<rparr>" "w\<lparr>posts := posts w + 1\<rparr>" depth]
      Suc.prems get_token_bad_request [of w] ls
    by (simp add: echo_def lower_atlantis special_atlantis provider_search_def falsy_def
        is_city_def)
  also have "\<dots> = (Inr None, ls,
            w\<lparr>posts := posts w + Suc depth,
              geocodes := geocodes w @ replicate (Suc depth) (lit ''Atlantis'')\<rparr>)"
    by (simp add: Suc.IH [OF Suc.prems] replicate_append_same)
  finally show ?case by simp
qed

text \<open>
  Claim C6. The fallback should call the resolver once more and stop. In the code the
  inner call is the whole method, geocoding fallback included, and nothing bounds the
  chain: with a geocoder that finds for Atlantis a locality called Atlantis (and no token
  for the provider search), every nested call asks the geocoder again. The calls end
  only where the recursion limit of the interpreter is reached, and the \<open>RecursionError\<close>
  raised there is caught as a failure of the geocoding: for every limit \<open>depth + 1\<close> the
  geocoder is called \<open>depth + 1\<close> times.
\<close>

theorem geocoding_fallback_unbounded:
  "find_iata_code (Suc depth) echo new_location_service new_world (lit ''Atlantis'') =
     (Inr None, new_location_service,
      new_world\<lparr>posts := Suc depth,
                geocodes := replicate (Suc depth) (lit ''Atlantis'')\<rparr>)"
  using echo_recursion [of new_location_service "Suc depth" new_world]
  by (simp add: new_location_service_def new_world_def)

section \<open>The suggestion parsers\<close>

























lemma two_hotels_headers:
  "length (filter (\<lambda>line. hotel_header line \<noteq> None) (content_lines two_hotels)) = 2"
  by (simp add: content_lines_def two_hotels_def lit_def strip_def is_space_def
      hotel_header_def)




end
